theory Spec2Isabelle
  imports Main "HOL-Library.Sublist"
begin

section \<open>The Atomic Host provisioner of libmachine/provision/atomichost.go\<close>

text \<open>
  The file provisions a remote Atomic Host over an SSH command channel. Its four
  operations are \<open>GenerateDockerOptions\<close> (renders the systemd unit of the engine from a
  text/template), \<open>Service\<close> (drives \<open>systemctl\<close>), \<open>upgrade\<close> (runs
  \<open>atomic host upgrade\<close> and reboots when something changed) and \<open>Provision\<close> (the
  sequence of provisioning steps).

  Go values are modelled as follows: \<open>string\<close> is a list of bytes, \<open>[]string\<close> a list,
  a struct a record, an \<open>error\<close> return an \<open>error option\<close> (\<open>None\<close> is \<open>nil\<close>), a
  \<open>(value, error)\<close> return a pair or a sum. The remote host is a state of an arbitrary
  type \<open>'w\<close> that every remote call may read and change.
\<close>

subsection \<open>Errors and strings\<close>

text \<open>A Go \<open>error\<close> is observed by this file only through its \<open>Error()\<close> text.\<close>

datatype error = GoError string

fun Error :: "error \<Rightarrow> string" where
  "Error (GoError msg) = msg"

text \<open>\<open>strings.Contains(s, substr)\<close>: \<open>substr\<close> occurs in \<open>s\<close> as a contiguous run.\<close>

fun Contains :: "string \<Rightarrow> string \<Rightarrow> bool" where
  "Contains [] substr = (substr = [])"
| "Contains (c # s) substr = (prefix substr (c # s) \<or> Contains s substr)"

subsection \<open>Option structs\<close>

text \<open>
  The structs \<open>auth.Options\<close>, \<open>engine.Options\<close> and \<open>swarm.Options\<close> are declared in
  other packages; the records carry the fields that atomichost.go and its template read
  or write.
\<close>

record auth_Options =
  CaCertRemotePath :: string
  ServerCertRemotePath :: string
  ServerKeyRemotePath :: string

record engine_Options =
  ArbitraryFlags :: "string list"
  Env :: "string list"
  InsecureRegistry :: "string list"
  Labels :: "string list"
  RegistryMirror :: "string list"
  StorageDriver :: string

record swarm_Options =
  Env :: "string list"

text \<open>The driver is used through its two accessors \<open>DriverName()\<close> and \<open>GetMachineName()\<close>.\<close>

record Driver =
  DriverName :: string
  GetMachineName :: string

record DockerOptions =
  EngineOptions :: string
  EngineOptionsPath :: string

record EngineConfigContext =
  DockerPort :: int
  AuthOptions :: auth_Options
  EngineOptions :: engine_Options

text \<open>
  \<open>AtomicHostProvisioner\<close> embeds \<open>SystemdProvisioner\<close>, which embeds
  \<open>GenericProvisioner\<close>; these are the fields of the flattened struct that the file uses.
\<close>

record AtomicHostProvisioner =
  DaemonOptionsFile :: string
  Driver :: Driver
  AuthOptions :: auth_Options
  EngineOptions :: engine_Options
  SwarmOptions :: swarm_Options

subsection \<open>The remote host and the collaborators\<close>

text \<open>
  Modelled from the spec: the enumeration \<open>serviceaction.ServiceAction\<close> is declared in
  package serviceaction, outside this file; the spec names its members Start, Stop and
  Restart. Its \<open>String()\<close> method is a parameter (\<open>actionString\<close> below).
\<close>

datatype ServiceAction = Restart | Start | Stop

text \<open>
  What the provisioner does to the outside is recorded as a trace of events: a remote
  command handed to \<open>SSHCommand\<close>, or a call of one of the collaborators of \<open>Provision\<close>
  with the arguments that are passed by value.
\<close>

datatype event =
    Ssh string
  | CallSetHostname string
  | CallMakeDockerOptionsDir
  | CallSetRemoteAuthOptions
  | CallConfigureAuth
  | CallConfigureSwarm swarm_Options auth_Options

record 'w host =
  provisioner :: AtomicHostProvisioner
  remote :: 'w
  issued :: "event list"

text \<open>
  The collaborators are defined outside atomichost.go and are parameters of the model.
  \<open>sshCommander\<close> is the \<open>SSHCommander\<close> installed by \<open>NewAtomicHostProvisioner\<close>: it runs
  a command on the remote host and returns its output and error. The others receive the
  provisioner by pointer, so they may change it as well as the remote host.
\<close>

record 'w collaborators =
  sshCommander :: "string \<Rightarrow> 'w \<Rightarrow> (string \<times> error option) \<times> 'w"
  actionString :: "ServiceAction \<Rightarrow> string"
  hostnameSetter ::
    "string \<Rightarrow> AtomicHostProvisioner \<times> 'w \<Rightarrow> error option \<times> AtomicHostProvisioner \<times> 'w"
  optionsDirMaker ::
    "AtomicHostProvisioner \<times> 'w \<Rightarrow> error option \<times> AtomicHostProvisioner \<times> 'w"
  remoteAuthSetter ::
    "AtomicHostProvisioner \<times> 'w \<Rightarrow> auth_Options \<times> AtomicHostProvisioner \<times> 'w"
  authConfigurer ::
    "AtomicHostProvisioner \<times> 'w \<Rightarrow> error option \<times> AtomicHostProvisioner \<times> 'w"
  swarmConfigurer ::
    "swarm_Options \<Rightarrow> auth_Options \<Rightarrow> AtomicHostProvisioner \<times> 'w
       \<Rightarrow> error option \<times> AtomicHostProvisioner \<times> 'w"

text \<open>\<open>provisioner.SSHCommand(args)\<close>: one blocking remote invocation.\<close>

definition SSHCommand ::
  "'w collaborators \<Rightarrow> string \<Rightarrow> 'w host \<Rightarrow> (string \<times> error option) \<times> 'w host" where
  "SSHCommand c args s =
     (case sshCommander c args (remote s) of
        (r, w) \<Rightarrow> (r, s\<lparr>remote := w, issued := issued s @ [Ssh args]\<rparr>))"

subsection \<open>Service\<close>

definition Service ::
  "'w collaborators \<Rightarrow> string \<Rightarrow> ServiceAction \<Rightarrow> 'w host \<Rightarrow> error option \<times> 'w host" where
  "Service c name action s =
     (let reloadDaemon = (case action of Start \<Rightarrow> True | Restart \<Rightarrow> True | _ \<Rightarrow> False);
          reloaded =
            (if reloadDaemon
             then (case SSHCommand c ''sudo systemctl daemon-reload'' s of
                     ((_, err), s1) \<Rightarrow> (err, s1))
             else (None, s))
      in case reloaded of
           (Some err, s1) \<Rightarrow> (Some err, s1)
         | (None, s1) \<Rightarrow>
             (let command = ''sudo systemctl '' @ actionString c action @ '' '' @ name
              in case SSHCommand c command s1 of
                   ((_, Some err), s2) \<Rightarrow> (Some err, s2)
                 | ((_, None), s2) \<Rightarrow> (None, s2)))"

subsection \<open>upgrade\<close>

definition upgrade :: "'w collaborators \<Rightarrow> 'w host \<Rightarrow> error option \<times> 'w host" where
  "upgrade c s =
     (case SSHCommand c ''sudo atomic host upgrade'' s of
        ((upgradeCommandOutput, Some err), s1) \<Rightarrow>
          (if Error err = ''exit status 77'' then (None, s1) else (Some err, s1))
      | ((upgradeCommandOutput, None), s1) \<Rightarrow>
          (if Contains upgradeCommandOutput ''No upgrade available.''
           then (None, s1)
           else (case SSHCommand c ''sudo reboot'' s1 of (_, s2) \<Rightarrow> (None, s2))))"

subsection \<open>Provision\<close>

text \<open>
  A call of a collaborator that takes the provisioner: the call is recorded, and the
  collaborator's changes to the provisioner and to the remote host are kept.
\<close>

definition call ::
  "event \<Rightarrow> (AtomicHostProvisioner \<times> 'w \<Rightarrow> 'r \<times> AtomicHostProvisioner \<times> 'w)
     \<Rightarrow> 'w host \<Rightarrow> 'r \<times> 'w host" where
  "call ev f s =
     (case f (provisioner s, remote s) of
        (r, p, w) \<Rightarrow> (r, \<lparr>provisioner = p, remote = w, issued = issued s @ [ev]\<rparr>))"

text \<open>
  \<open>swarmOptions\<close>, \<open>authOptions\<close> and \<open>engineOptions\<close> are passed by value; the assignment
  to \<open>swarmOptions.Env\<close> changes the local copy after the provisioner has stored the
  original.
\<close>

definition Provision ::
  "'w collaborators \<Rightarrow> swarm_Options \<Rightarrow> auth_Options \<Rightarrow> engine_Options \<Rightarrow> 'w host
     \<Rightarrow> error option \<times> 'w host" where
  "Provision c swarmOptions authOptions engineOptions s =
     (let p0 = (provisioner s)\<lparr>SwarmOptions := swarmOptions,
                                AtomicHostProvisioner.AuthOptions := authOptions,
                                AtomicHostProvisioner.EngineOptions := engineOptions\<rparr>;
          swarmOptions1 = swarmOptions\<lparr>swarm_Options.Env := engine_Options.Env engineOptions\<rparr>;
          storageDriver = StorageDriver (AtomicHostProvisioner.EngineOptions p0);
          validated =
            (if storageDriver = []
             then Inr (p0\<lparr>AtomicHostProvisioner.EngineOptions :=
                          (AtomicHostProvisioner.EngineOptions p0)\<lparr>StorageDriver := ''overlay''\<rparr>\<rparr>)
             else if storageDriver \<noteq> ''overlay''
             then Inl (GoError (''Unsupported storage driver: '' @ storageDriver))
             else Inr p0)
      in case validated of
           Inl err \<Rightarrow> (Some err, s\<lparr>provisioner := p0\<rparr>)
         | Inr p1 \<Rightarrow>
          (let s1 = s\<lparr>provisioner := p1\<rparr>;
               hostname = GetMachineName (Driver (provisioner s1))
           in case call (CallSetHostname hostname) (hostnameSetter c hostname) s1 of
                (Some err, s2) \<Rightarrow> (Some err, s2)
              | (None, s2) \<Rightarrow>
             (case call CallMakeDockerOptionsDir (optionsDirMaker c) s2 of
                (Some err, s3) \<Rightarrow> (Some err, s3)
              | (None, s3) \<Rightarrow>
             (case call CallSetRemoteAuthOptions (remoteAuthSetter c) s3 of
                (remoteAuth, s4) \<Rightarrow>
             (let s5 = s4\<lparr>provisioner :=
                          (provisioner s4)\<lparr>AtomicHostProvisioner.AuthOptions := remoteAuth\<rparr>\<rparr>
              in case call CallConfigureAuth (authConfigurer c) s5 of
                (Some err, s6) \<Rightarrow> (Some err, s6)
              | (None, s6) \<Rightarrow>
             (let authOptions1 = AtomicHostProvisioner.AuthOptions (provisioner s6)
              in case call (CallConfigureSwarm swarmOptions1 authOptions1)
                           (swarmConfigurer c swarmOptions1 authOptions1) s6 of
                (Some err, s7) \<Rightarrow> (Some err, s7)
              | (None, s7) \<Rightarrow> (None, s7)))))))"

subsection \<open>A fragment of text/template\<close>

text \<open>
  \<open>GenerateDockerOptions\<close> parses and executes a template with Go's text/template. The
  library is a parameter of the model: \<open>Parse\<close> stands for
  \<open>template.New("engineConfig").Parse\<close>, and \<open>Execute\<close> returns the text written to the
  (initially empty) buffer together with the error of \<open>t.Execute\<close>.
\<close>

record 't text_template =
  Parse :: "string \<Rightarrow> error + 't"
  Execute :: "'t \<Rightarrow> EngineConfigContext \<Rightarrow> string \<times> error option"

text \<open>
  The instance \<open>go_template\<close> below implements the constructs that the template of this
  file uses, after the documentation of text/template: literal text, the actions
  \<open>{{.}}\<close> and \<open>{{.A.B}}\<close>, \<open>{{range .A.B}} ... {{end}}\<close> and \<open>{{printf "%q" .}}\<close>. Any other
  action is rejected by the parser. Data is seen as the reflection of a Go value.
\<close>

datatype tvalue =
    VInt int
  | VString string
  | VSlice "tvalue list"
  | VStruct "(string \<times> tvalue) list"

datatype pipe = FieldChain "string list" | PrintfQ "string list"

datatype node = TextNode string | ActionNode pipe | RangeNode pipe "node list"

datatype item = ItemText string | ItemAction string

datatype token = TokText string | TokAction pipe | TokRange pipe | TokEnd

text \<open>The lexer: text up to the next \<open>{{\<close>, then the action up to the next \<open>}}\<close>.\<close>

definition itemText :: "string \<Rightarrow> item list" where
  "itemText text = (if text = [] then [] else [ItemText text])"

fun lexText :: "string \<Rightarrow> string \<Rightarrow> error + item list"
  and lexInsideAction :: "string \<Rightarrow> string \<Rightarrow> error + item list" where
  "lexText text [] = Inr (itemText text)"
| "lexText text [c] = Inr (itemText (text @ [c]))"
| "lexText text (c # d # s) =
     (if c = CHR ''{'' \<and> d = CHR ''{''
      then (case lexInsideAction [] s of
              Inl err \<Rightarrow> Inl err
            | Inr items \<Rightarrow> Inr (itemText text @ items))
      else lexText (text @ [c]) (d # s))"
| "lexInsideAction action [] = Inl (GoError ''template: engineConfig: unclosed action'')"
| "lexInsideAction action [c] = Inl (GoError ''template: engineConfig: unclosed action'')"
| "lexInsideAction action (c # d # s) =
     (if c = CHR ''}'' \<and> d = CHR ''}''
      then (case lexText [] s of
              Inl err \<Rightarrow> Inl err
            | Inr items \<Rightarrow> Inr (ItemAction action # items))
      else lexInsideAction (action @ [c]) (d # s))"

fun splitOn :: "char \<Rightarrow> string \<Rightarrow> string list" where
  "splitOn d [] = [[]]"
| "splitOn d (c # s) =
     (if c = d then [] # splitOn d s
      else (case splitOn d s of [] \<Rightarrow> [[c]] | w # ws \<Rightarrow> (c # w) # ws))"

definition words :: "string \<Rightarrow> string list" where
  "words s = filter (\<lambda>w. w \<noteq> []) (splitOn CHR '' '' s)"

definition isIdent :: "string \<Rightarrow> bool" where
  "isIdent w \<longleftrightarrow> w \<noteq> [] \<and>
     (\<forall>c \<in> set w. c \<in> set ''abcdefghijklmnopqrstuvwxyzABCDEFGHIJKLMNOPQRSTUVWXYZ0123456789_'')"

definition parseField :: "string \<Rightarrow> string list option" where
  "parseField w =
     (case w of
        [] \<Rightarrow> None
      | c # r \<Rightarrow>
          if c \<noteq> CHR ''.'' then None
          else if r = [] then Some []
          else if list_all isIdent (splitOn CHR ''.'' r) then Some (splitOn CHR ''.'' r)
          else None)"

definition unsupported :: "string \<Rightarrow> error" where
  "unsupported action =
     GoError (''template: engineConfig: unsupported action {{'' @ action @ ''}}'')"

definition parseAction :: "string \<Rightarrow> error + token" where
  \<open>parseAction action =
     (case words action of
        [w] \<Rightarrow>
          if w = ''end'' then Inr TokEnd
          else (case parseField w of
                  Some f \<Rightarrow> Inr (TokAction (FieldChain f))
                | None \<Rightarrow> Inl (unsupported action))
      | [k, w] \<Rightarrow>
          (case parseField w of
             Some f \<Rightarrow>
               if k = ''range'' then Inr (TokRange (FieldChain f)) else Inl (unsupported action)
           | None \<Rightarrow> Inl (unsupported action))
      | [k, fmt, w] \<Rightarrow>
          (case parseField w of
             Some f \<Rightarrow>
               if k = ''printf'' \<and> fmt = ''"%q"'' then Inr (TokAction (PrintfQ f))
               else Inl (unsupported action)
           | None \<Rightarrow> Inl (unsupported action))
      | _ \<Rightarrow> Inl (unsupported action))\<close>

fun tokens :: "item list \<Rightarrow> error + token list" where
  "tokens [] = Inr []"
| "tokens (ItemText text # items) =
     (case tokens items of Inl err \<Rightarrow> Inl err | Inr ts \<Rightarrow> Inr (TokText text # ts))"
| "tokens (ItemAction action # items) =
     (case parseAction action of
        Inl err \<Rightarrow> Inl err
      | Inr t \<Rightarrow> (case tokens items of Inl err \<Rightarrow> Inl err | Inr ts \<Rightarrow> Inr (t # ts)))"

text \<open>
  The tree: \<open>stack\<close> holds the enclosing \<open>range\<close> actions with the nodes that precede
  them, \<open>cur\<close> the nodes of the list being read, both in reverse.
\<close>

fun build :: "(pipe \<times> node list) list \<Rightarrow> node list \<Rightarrow> token list \<Rightarrow> error + node list" where
  "build stack cur [] =
     (if stack = [] then Inr (rev cur)
      else Inl (GoError ''template: engineConfig: unexpected EOF''))"
| "build stack cur (TokText text # ts) = build stack (TextNode text # cur) ts"
| "build stack cur (TokAction p # ts) = build stack (ActionNode p # cur) ts"
| "build stack cur (TokRange p # ts) = build ((p, cur) # stack) [] ts"
| "build stack cur (TokEnd # ts) =
     (case stack of
        [] \<Rightarrow> Inl (GoError ''template: engineConfig: unexpected {{end}}'')
      | (p, outer) # stack1 \<Rightarrow> build stack1 (RangeNode p (rev cur) # outer) ts)"

definition Parse_template :: "string \<Rightarrow> error + node list" where
  "Parse_template text =
     (case lexText [] text of
        Inl err \<Rightarrow> Inl err
      | Inr items \<Rightarrow> (case tokens items of Inl err \<Rightarrow> Inl err | Inr ts \<Rightarrow> build [] [] ts))"

text \<open>Execution. An integer is printed in decimal, a string as it is.\<close>

definition digit :: "nat \<Rightarrow> char" where
  "digit n = ''0123456789'' ! (n mod 10)"

fun decimal :: "nat \<Rightarrow> string" where
  "decimal n = (if n < 10 then [digit n] else decimal (n div 10) @ [digit n])"

definition Itoa :: "int \<Rightarrow> string" where
  "Itoa i = (if i < 0 then ''-'' @ decimal (nat (- i)) else decimal (nat i))"

fun field :: "string \<Rightarrow> tvalue \<Rightarrow> error + tvalue" where
  "field name (VStruct fs) =
     (case map_of fs name of
        Some v \<Rightarrow> Inr v
      | None \<Rightarrow> Inl (GoError (''template: engineConfig: can't evaluate field '' @ name)))"
| "field name v = Inl (GoError (''template: engineConfig: can't evaluate field '' @ name))"

fun fieldChain :: "string list \<Rightarrow> tvalue \<Rightarrow> error + tvalue" where
  "fieldChain [] dot = Inr dot"
| "fieldChain (name # names) dot =
     (case field name dot of Inl err \<Rightarrow> Inl err | Inr v \<Rightarrow> fieldChain names v)"

fun printValue :: "tvalue \<Rightarrow> error + string" where
  "printValue (VInt i) = Inr (Itoa i)"
| "printValue (VString s) = Inr s"
| "printValue v = Inl (GoError ''template: engineConfig: value outside the modelled fragment'')"

text \<open>\<open>Q\<close> is \<open>strconv.Quote\<close>, the rendering of a string under the verb \<open>%q\<close>.\<close>

fun evalPipe :: "(string \<Rightarrow> string) \<Rightarrow> pipe \<Rightarrow> tvalue \<Rightarrow> error + string" where
  "evalPipe Q (FieldChain names) dot =
     (case fieldChain names dot of Inl err \<Rightarrow> Inl err | Inr v \<Rightarrow> printValue v)"
| "evalPipe Q (PrintfQ names) dot =
     (case fieldChain names dot of
        Inl err \<Rightarrow> Inl err
      | Inr (VString s) \<Rightarrow> Inr (Q s)
      | Inr v \<Rightarrow> Inl (GoError ''template: engineConfig: value outside the modelled fragment''))"

text \<open>
  A loop that stops at the first error; the text written before the error stays in the
  buffer.
\<close>

fun forEach :: "('a \<Rightarrow> string \<times> error option) \<Rightarrow> 'a list \<Rightarrow> string \<times> error option" where
  "forEach f [] = ([], None)"
| "forEach f (x # xs) =
     (case f x of
        (out, Some err) \<Rightarrow> (out, Some err)
      | (out, None) \<Rightarrow> (case forEach f xs of (out1, r) \<Rightarrow> (out @ out1, r)))"

fun walk :: "(string \<Rightarrow> string) \<Rightarrow> tvalue \<Rightarrow> node list \<Rightarrow> string \<times> error option"
  and walkNode :: "(string \<Rightarrow> string) \<Rightarrow> tvalue \<Rightarrow> node \<Rightarrow> string \<times> error option" where
  "walk Q dot [] = ([], None)"
| "walk Q dot (n # ns) =
     (case walkNode Q dot n of
        (out, Some err) \<Rightarrow> (out, Some err)
      | (out, None) \<Rightarrow> (case walk Q dot ns of (out1, r) \<Rightarrow> (out @ out1, r)))"
| "walkNode Q dot (TextNode text) = (text, None)"
| "walkNode Q dot (ActionNode p) =
     (case evalPipe Q p dot of Inl err \<Rightarrow> ([], Some err) | Inr s \<Rightarrow> (s, None))"
| "walkNode Q dot (RangeNode p body) =
     (case p of
        FieldChain names \<Rightarrow>
          (case fieldChain names dot of
             Inl err \<Rightarrow> ([], Some err)
           | Inr (VSlice vs) \<Rightarrow> forEach (\<lambda>v. walk Q v body) vs
           | Inr v \<Rightarrow> ([], Some (GoError ''template: engineConfig: range can't iterate'')))
      | PrintfQ names \<Rightarrow> ([], Some (GoError ''template: engineConfig: range can't iterate'')))"

text \<open>The data handed to \<open>Execute\<close>, as the template sees it.\<close>

definition reflect_auth :: "auth_Options \<Rightarrow> tvalue" where
  "reflect_auth ao =
     VStruct [(''CaCertRemotePath'', VString (CaCertRemotePath ao)),
              (''ServerCertRemotePath'', VString (ServerCertRemotePath ao)),
              (''ServerKeyRemotePath'', VString (ServerKeyRemotePath ao))]"

definition reflect_engine :: "engine_Options \<Rightarrow> tvalue" where
  "reflect_engine eo =
     VStruct [(''ArbitraryFlags'', VSlice (map VString (ArbitraryFlags eo))),
              (''Env'', VSlice (map VString (engine_Options.Env eo))),
              (''InsecureRegistry'', VSlice (map VString (InsecureRegistry eo))),
              (''Labels'', VSlice (map VString (Labels eo))),
              (''RegistryMirror'', VSlice (map VString (RegistryMirror eo))),
              (''StorageDriver'', VString (StorageDriver eo))]"

definition reflect :: "EngineConfigContext \<Rightarrow> tvalue" where
  "reflect ctx =
     VStruct [(''DockerPort'', VInt (DockerPort ctx)),
              (''AuthOptions'', reflect_auth (EngineConfigContext.AuthOptions ctx)),
              (''EngineOptions'', reflect_engine (EngineConfigContext.EngineOptions ctx))]"

definition go_template :: "(string \<Rightarrow> string) \<Rightarrow> node list text_template" where
  "go_template Q = \<lparr>Parse = Parse_template, Execute = (\<lambda>t ctx. walk Q (reflect ctx) t)\<rparr>"

subsection \<open>GenerateDockerOptions\<close>

definition engineConfigTmpl :: string where
  \<open>engineConfigTmpl =
     ''[Unit]\<newline>'' @
     ''Description=Docker Application Container Engine\<newline>'' @
     ''Documentation=http://docs.docker.com\<newline>'' @
     ''After=network.target\<newline>'' @
     ''\<newline>'' @
     ''[Service]\<newline>'' @
     ''ExecStart=/usr/bin/docker -d -H tcp://0.0.0.0:{{.DockerPort}} -H unix:///var/run/docker.sock --storage-driver {{.EngineOptions.StorageDriver}} --tlsverify --tlscacert {{.AuthOptions.CaCertRemotePath}} --tlscert {{.AuthOptions.ServerCertRemotePath}} --tlskey {{.AuthOptions.ServerKeyRemotePath}} {{ range .EngineOptions.Labels }}--label {{.}} {{ end }}{{ range .EngineOptions.InsecureRegistry }}--insecure-registry {{.}} {{ end }}{{ range .EngineOptions.RegistryMirror }}--registry-mirror {{.}} {{ end }}{{ range .EngineOptions.ArbitraryFlags }}--{{.}} {{ end }}\<newline>'' @
     ''MountFlags=slave\<newline>'' @
     ''LimitNOFILE=1048576\<newline>'' @
     ''LimitNPROC=1048576\<newline>'' @
     ''LimitCORE=infinity\<newline>'' @
     ''Environment={{range .EngineOptions.Env}}{{ printf "%q" . }} {{end}}\<newline>'' @
     ''\<newline>'' @
     ''[Install]\<newline>'' @
     ''WantedBy=multi-user.target\<newline>''\<close>

text \<open>
  The label is appended to the provisioner's stored options before the template is
  parsed, so the provisioner is changed on every path. The error of \<open>t.Execute\<close> is not
  looked at.
\<close>

definition GenerateDockerOptions ::
  "'t text_template \<Rightarrow> int \<Rightarrow> AtomicHostProvisioner
     \<Rightarrow> (error + DockerOptions) \<times> AtomicHostProvisioner" where
  "GenerateDockerOptions lib dockerPort p =
     (let driverNameLabel = ''provider='' @ DriverName (Driver p);
          p1 = p\<lparr>AtomicHostProvisioner.EngineOptions :=
                   (AtomicHostProvisioner.EngineOptions p)
                     \<lparr>Labels := Labels (AtomicHostProvisioner.EngineOptions p) @ [driverNameLabel]\<rparr>\<rparr>
      in case Parse lib engineConfigTmpl of
           Inl err \<Rightarrow> (Inl err, p1)
         | Inr t \<Rightarrow>
             (let engineConfigContext =
                    \<lparr>DockerPort = dockerPort,
                     EngineConfigContext.AuthOptions = AtomicHostProvisioner.AuthOptions p1,
                     EngineConfigContext.EngineOptions = AtomicHostProvisioner.EngineOptions p1\<rparr>;
                  engineCfg = fst (Execute lib t engineConfigContext)
              in (Inr \<lparr>DockerOptions.EngineOptions = engineCfg,
                       EngineOptionsPath = DaemonOptionsFile p1\<rparr>, p1)))"

text \<open>The provisioner after \<open>n\<close> consecutive calls.\<close>

fun GenerateDockerOptions_calls ::
  "'t text_template \<Rightarrow> int \<Rightarrow> nat \<Rightarrow> AtomicHostProvisioner \<Rightarrow> AtomicHostProvisioner" where
  "GenerateDockerOptions_calls lib dockerPort 0 p = p"
| "GenerateDockerOptions_calls lib dockerPort (Suc n) p =
     snd (GenerateDockerOptions lib dockerPort (GenerateDockerOptions_calls lib dockerPort n p))"

subsection \<open>The unit file, as the spec describes it\<close>

text \<open>
  The spec describes the rendered text as a start command that embeds the listen
  addresses, the storage driver and the three certificate paths, then one flag per
  label, per insecure registry, per registry mirror and per arbitrary flag, then the
  resource limits and the environment line. \<open>flags opt xs\<close> is one \<open>opt\<close> flag per entry
  of \<open>xs\<close>, in the order of \<open>xs\<close>, each followed by a space.
\<close>

definition flags :: "string \<Rightarrow> string list \<Rightarrow> string" where
  "flags opt xs = concat (map (\<lambda>x. opt @ x @ '' '') xs)"

definition unitHead :: "int \<Rightarrow> string \<Rightarrow> auth_Options \<Rightarrow> string" where
  "unitHead dockerPort storageDriver ao =
     ''[Unit]\<newline>'' @
     ''Description=Docker Application Container Engine\<newline>'' @
     ''Documentation=http://docs.docker.com\<newline>'' @
     ''After=network.target\<newline>'' @
     ''\<newline>'' @
     ''[Service]\<newline>'' @
     ''ExecStart=/usr/bin/docker -d -H tcp://0.0.0.0:'' @ Itoa dockerPort @
     '' -H unix:///var/run/docker.sock --storage-driver '' @ storageDriver @
     '' --tlsverify --tlscacert '' @ CaCertRemotePath ao @
     '' --tlscert '' @ ServerCertRemotePath ao @
     '' --tlskey '' @ ServerKeyRemotePath ao @ '' ''"

definition unitTail :: "(string \<Rightarrow> string) \<Rightarrow> string list \<Rightarrow> string" where
  "unitTail Q env =
     ''\<newline>'' @
     ''MountFlags=slave\<newline>'' @
     ''LimitNOFILE=1048576\<newline>'' @
     ''LimitNPROC=1048576\<newline>'' @
     ''LimitCORE=infinity\<newline>'' @
     ''Environment='' @ concat (map (\<lambda>e. Q e @ '' '') env) @ ''\<newline>'' @
     ''\<newline>'' @
     ''[Install]\<newline>'' @
     ''WantedBy=multi-user.target\<newline>''"

definition unitFile :: "(string \<Rightarrow> string) \<Rightarrow> int \<Rightarrow> auth_Options \<Rightarrow> engine_Options \<Rightarrow> string" where
  "unitFile Q dockerPort ao eo =
     unitHead dockerPort (StorageDriver eo) ao @
     flags ''--label '' (Labels eo) @
     flags ''--insecure-registry '' (InsecureRegistry eo) @
     flags ''--registry-mirror '' (RegistryMirror eo) @
     flags ''--'' (ArbitraryFlags eo) @
     unitTail Q (engine_Options.Env eo)"

text \<open>\<open>strings.Fields\<close>: the maximal runs of non-space bytes, used to count tokens.\<close>

definition isSpace :: "char \<Rightarrow> bool" where
  "isSpace c \<longleftrightarrow> c \<in> set [CHR '' '', CHR ''\<newline>'', CHR 0x09, CHR 0x0B, CHR 0x0C, CHR 0x0D]"

fun Fields :: "string \<Rightarrow> string list" where
  "Fields [] = []"
| "Fields [c] = (if isSpace c then [] else [[c]])"
| "Fields (c # d # s) =
     (if isSpace c then Fields (d # s)
      else if isSpace d then [c] # Fields s
      else (case Fields (d # s) of [] \<Rightarrow> [[c]] | w # ws \<Rightarrow> (c # w) # ws))"

subsection \<open>A scripted remote host\<close>

text \<open>
  A concrete instance of the collaborators, used to run the model: the remote host is a
  script of canned replies, one per remote command, and the collaborators of
  \<open>Provision\<close> succeed without changing anything.
\<close>

definition scripted :: "(string \<times> error option) list collaborators" where
  "scripted =
     \<lparr>sshCommander = (\<lambda>args w. case w of [] \<Rightarrow> (([], None), []) | r # rs \<Rightarrow> (r, rs)),
      actionString = (\<lambda>a. case a of Restart \<Rightarrow> ''restart'' | Start \<Rightarrow> ''start'' | Stop \<Rightarrow> ''stop''),
      hostnameSetter = (\<lambda>hostname (p, w). (None, p, w)),
      optionsDirMaker = (\<lambda>(p, w). (None, p, w)),
      remoteAuthSetter = (\<lambda>(p, w). (AtomicHostProvisioner.AuthOptions p, p, w)),
      authConfigurer = (\<lambda>(p, w). (None, p, w)),
      swarmConfigurer = (\<lambda>so ao (p, w). (None, p, w))\<rparr>"

definition provisioner0 :: AtomicHostProvisioner where
  "provisioner0 =
     \<lparr>DaemonOptionsFile = ''/etc/systemd/system/docker.service'',
      Driver = \<lparr>DriverName = ''virtualbox'', GetMachineName = ''dev''\<rparr>,
      AtomicHostProvisioner.AuthOptions =
        \<lparr>CaCertRemotePath = ''/etc/docker/ca.pem'',
         ServerCertRemotePath = ''/etc/docker/server.pem'',
         ServerKeyRemotePath = ''/etc/docker/server-key.pem''\<rparr>,
      AtomicHostProvisioner.EngineOptions =
        \<lparr>ArbitraryFlags = [], engine_Options.Env = [], InsecureRegistry = [], Labels = [],
         RegistryMirror = [], StorageDriver = ''overlay''\<rparr>,
      SwarmOptions = \<lparr>swarm_Options.Env = []\<rparr>\<rparr>"

definition host0 :: "(string \<times> error option) list \<Rightarrow> (string \<times> error option) list host" where
  "host0 script = \<lparr>provisioner = provisioner0, remote = script, issued = []\<rparr>"

text \<open>Collaborators whose hostname step, or whose options-directory step, fails.\<close>

definition hostname_fails :: "(string \<times> error option) list collaborators" where
  "hostname_fails =
     scripted\<lparr>hostnameSetter := (\<lambda>hostname (p, w). (Some (GoError ''hostname: exit status 1''), p, w))\<rparr>"

definition options_dir_fails :: "(string \<times> error option) list collaborators" where
  "options_dir_fails =
     scripted\<lparr>optionsDirMaker := (\<lambda>(p, w). (Some (GoError ''mkdir: exit status 1''), p, w))\<rparr>"

text \<open>
  \<open>strconv.Quote\<close> on ASCII strings. A byte from \<open>0x80\<close> is written \<open>\xNN\<close>, which is what
  Go does for a byte outside a valid UTF-8 encoding; Go copies a printable non-ASCII rune
  and writes a \<open>\u\<close> escape for the others, so such strings are outside this instance.
  The properties below are stated for every quoting function.
\<close>

definition hexByte :: "nat \<Rightarrow> string" where
  "hexByte n = [''0123456789abcdef'' ! (n div 16 mod 16), ''0123456789abcdef'' ! (n mod 16)]"

definition quoteByte :: "char \<Rightarrow> string" where
  "quoteByte c =
     (if c = CHR 0x22 then [CHR 0x5C, CHR 0x22]
      else if c = CHR 0x5C then [CHR 0x5C, CHR 0x5C]
      else if c = CHR 0x07 then [CHR 0x5C, CHR ''a'']
      else if c = CHR 0x08 then [CHR 0x5C, CHR ''b'']
      else if c = CHR 0x0C then [CHR 0x5C, CHR ''f'']
      else if c = CHR 0x0A then [CHR 0x5C, CHR ''n'']
      else if c = CHR 0x0D then [CHR 0x5C, CHR ''r'']
      else if c = CHR 0x09 then [CHR 0x5C, CHR ''t'']
      else if c = CHR 0x0B then [CHR 0x5C, CHR ''v'']
      else if (of_char c :: nat) < 0x20 \<or> (0x7F :: nat) \<le> of_char c
      then [CHR 0x5C, CHR ''x''] @ hexByte (of_char c)
      else [c])"

definition Quote :: "string \<Rightarrow> string" where
  "Quote s = [CHR 0x22] @ concat (map quoteByte s) @ [CHR 0x22]"

text \<open>
  Two instances of the template library that fail: one whose \<open>Parse\<close> returns an error,
  and one that executes the template on data without the fields \<open>AuthOptions\<close> and
  \<open>EngineOptions\<close>, so that execution stops at the first of them.
\<close>

definition no_parse_template :: "node list text_template" where
  "no_parse_template =
     \<lparr>Parse = (\<lambda>text. Inl (GoError ''template: engineConfig:1: unexpected EOF'')),
      Execute = (\<lambda>t ctx. ([], None))\<rparr>"

definition short_data_template :: "node list text_template" where
  "short_data_template =
     \<lparr>Parse = Parse_template,
      Execute = (\<lambda>t ctx. walk Quote (VStruct [(''DockerPort'', VInt (DockerPort ctx))]) t)\<rparr>"

section \<open>Properties\<close>

subsection \<open>Library functions\<close>

lemma Contains_iff_sublist: "Contains s substr \<longleftrightarrow> sublist substr s"
  by (induction s) (auto simp: sublist_Cons_right)

subsection \<open>Parsing and executing the template\<close>

lemma Parse_engineConfigTmpl:
  "Parse_template engineConfigTmpl =
     Inr [TextNode
       ''[Unit]\<newline>Description=Docker Application Container Engine\<newline>Documentation=http://docs.docker.com\<newline>After=network.target\<newline>\<newline>[Service]\<newline>ExecStart=/usr/bin/docker -d -H tcp://0.0.0.0:'',
      ActionNode (FieldChain [''DockerPort'']),
      TextNode '' -H unix:///var/run/docker.sock --storage-driver '',
      ActionNode (FieldChain [''EngineOptions'', ''StorageDriver'']),
      TextNode '' --tlsverify --tlscacert '',
      ActionNode (FieldChain [''AuthOptions'', ''CaCertRemotePath'']),
      TextNode '' --tlscert '',
      ActionNode (FieldChain [''AuthOptions'', ''ServerCertRemotePath'']),
      TextNode '' --tlskey '',
      ActionNode (FieldChain [''AuthOptions'', ''ServerKeyRemotePath'']),
      TextNode '' '',
      RangeNode (FieldChain [''EngineOptions'', ''Labels''])
       [TextNode ''--label '', ActionNode (FieldChain []), TextNode '' ''],
      RangeNode (FieldChain [''EngineOptions'', ''InsecureRegistry''])
       [TextNode ''--insecure-registry '', ActionNode (FieldChain []), TextNode '' ''],
      RangeNode (FieldChain [''EngineOptions'', ''RegistryMirror''])
       [TextNode ''--registry-mirror '', ActionNode (FieldChain []), TextNode '' ''],
      RangeNode (FieldChain [''EngineOptions'', ''ArbitraryFlags''])
       [TextNode ''--'', ActionNode (FieldChain []), TextNode '' ''],
      TextNode
       ''\<newline>MountFlags=slave\<newline>LimitNOFILE=1048576\<newline>LimitNPROC=1048576\<newline>LimitCORE=infinity\<newline>Environment='',
      RangeNode (FieldChain [''EngineOptions'', ''Env''])
       [ActionNode (PrintfQ []), TextNode '' ''],
      TextNode ''\<newline>\<newline>[Install]\<newline>WantedBy=multi-user.target\<newline>'']"
  by code_simp

lemma forEach_strings:
  "forEach (\<lambda>v. walk Q v [TextNode opt, ActionNode (FieldChain []), TextNode '' '']) (map VString xs)
     = (flags opt xs, None)"
  by (induction xs) (simp_all add: flags_def)

lemma forEach_quoted:
  "forEach (\<lambda>v. walk Q v [ActionNode (PrintfQ []), TextNode '' '']) (map VString xs)
     = (concat (map (\<lambda>e. Q e @ '' '') xs), None)"
  by (induction xs) simp_all

lemma range_strings:
  "fieldChain names dot = Inr (VSlice (map VString xs)) \<Longrightarrow>
     walkNode Q dot (RangeNode (FieldChain names)
                       [TextNode opt, ActionNode (FieldChain []), TextNode '' ''])
       = (flags opt xs, None)"
  by (simp only: walkNode.simps pipe.case sum.case tvalue.case forEach_strings)

lemma range_quoted:
  "fieldChain names dot = Inr (VSlice (map VString xs)) \<Longrightarrow>
     walkNode Q dot (RangeNode (FieldChain names) [ActionNode (PrintfQ []), TextNode '' ''])
       = (concat (map (\<lambda>e. Q e @ '' '') xs), None)"
  by (simp only: walkNode.simps pipe.case sum.case tvalue.case forEach_quoted)

lemma fieldChain_reflect:
  "fieldChain [''DockerPort''] (reflect ctx) = Inr (VInt (DockerPort ctx))"
  "fieldChain [''AuthOptions'', ''CaCertRemotePath''] (reflect ctx)
     = Inr (VString (CaCertRemotePath (EngineConfigContext.AuthOptions ctx)))"
  "fieldChain [''AuthOptions'', ''ServerCertRemotePath''] (reflect ctx)
     = Inr (VString (ServerCertRemotePath (EngineConfigContext.AuthOptions ctx)))"
  "fieldChain [''AuthOptions'', ''ServerKeyRemotePath''] (reflect ctx)
     = Inr (VString (ServerKeyRemotePath (EngineConfigContext.AuthOptions ctx)))"
  "fieldChain [''EngineOptions'', ''StorageDriver''] (reflect ctx)
     = Inr (VString (StorageDriver (EngineConfigContext.EngineOptions ctx)))"
  "fieldChain [''EngineOptions'', ''Labels''] (reflect ctx)
     = Inr (VSlice (map VString (Labels (EngineConfigContext.EngineOptions ctx))))"
  "fieldChain [''EngineOptions'', ''InsecureRegistry''] (reflect ctx)
     = Inr (VSlice (map VString (InsecureRegistry (EngineConfigContext.EngineOptions ctx))))"
  "fieldChain [''EngineOptions'', ''RegistryMirror''] (reflect ctx)
     = Inr (VSlice (map VString (RegistryMirror (EngineConfigContext.EngineOptions ctx))))"
  "fieldChain [''EngineOptions'', ''ArbitraryFlags''] (reflect ctx)
     = Inr (VSlice (map VString (ArbitraryFlags (EngineConfigContext.EngineOptions ctx))))"
  "fieldChain [''EngineOptions'', ''Env''] (reflect ctx)
     = Inr (VSlice (map VString (engine_Options.Env (EngineConfigContext.EngineOptions ctx))))"
  by (simp_all add: reflect_def reflect_auth_def reflect_engine_def)

lemma Execute_engineConfigTmpl:
  assumes "Parse_template engineConfigTmpl = Inr t"
  shows "walk Q (reflect ctx) t
       = (unitFile Q (DockerPort ctx) (EngineConfigContext.AuthOptions ctx)
            (EngineConfigContext.EngineOptions ctx), None)"
proof -
  note ranges = range_strings [OF fieldChain_reflect(6)] range_strings [OF fieldChain_reflect(7)]
    range_strings [OF fieldChain_reflect(8)] range_strings [OF fieldChain_reflect(9)]
    range_quoted [OF fieldChain_reflect(10)]
  from assms have t: "t = projr (Parse_template engineConfigTmpl)" by simp
  show ?thesis
    unfolding t Parse_engineConfigTmpl
    by (simp add: ranges fieldChain_reflect unitFile_def unitHead_def unitTail_def
          del: walkNode.simps(3) fieldChain.simps)
qed

subsection \<open>GenerateDockerOptions\<close>

lemma GenerateDockerOptions_provisioner:
  "snd (GenerateDockerOptions lib dockerPort p)
     = p\<lparr>AtomicHostProvisioner.EngineOptions :=
           (AtomicHostProvisioner.EngineOptions p)
             \<lparr>Labels := Labels (AtomicHostProvisioner.EngineOptions p)
                          @ [''provider='' @ DriverName (Driver p)]\<rparr>\<rparr>"
  by (simp add: GenerateDockerOptions_def Let_def split: sum.splits)

lemma GenerateDockerOptions_go_template:
  "fst (GenerateDockerOptions (go_template Q) dockerPort p)
     = Inr \<lparr>DockerOptions.EngineOptions =
              unitFile Q dockerPort (AtomicHostProvisioner.AuthOptions p)
                ((AtomicHostProvisioner.EngineOptions p)
                   \<lparr>Labels := Labels (AtomicHostProvisioner.EngineOptions p)
                                @ [''provider='' @ DriverName (Driver p)]\<rparr>),
            EngineOptionsPath = DaemonOptionsFile p\<rparr>"
proof (cases "Parse_template engineConfigTmpl")
  case (Inl err)
  then show ?thesis by (simp add: Parse_engineConfigTmpl)
next
  case (Inr t)
  then show ?thesis
    by (simp add: GenerateDockerOptions_def go_template_def Let_def Execute_engineConfigTmpl)
qed

lemma GenerateDockerOptions_calls_provisioner:
  "GenerateDockerOptions_calls lib dockerPort n p
     = p\<lparr>AtomicHostProvisioner.EngineOptions :=
           (AtomicHostProvisioner.EngineOptions p)
             \<lparr>Labels := Labels (AtomicHostProvisioner.EngineOptions p)
                          @ replicate n (''provider='' @ DriverName (Driver p))\<rparr>\<rparr>"
proof (induction n)
  case 0
  show ?case by simp
next
  case (Suc n)
  then show ?case
    by (simp add: GenerateDockerOptions_provisioner replicate_append_same)
qed

text \<open>
  Claim C7, as stated, with \<open>N\<close> the number of labels of the provisioner's
  \<open>EngineOptions\<close>: the rendered text would contain exactly \<open>N\<close> tokens \<open>--label\<close>. It does
  not: with no label stored, the text of the first call has one, for the label
  \<open>provider=virtualbox\<close> that \<open>GenerateDockerOptions\<close> appends before rendering.
\<close>

theorem GenerateDockerOptions_label_count_counterexample:
  "length (Labels (AtomicHostProvisioner.EngineOptions provisioner0)) = 0 \<and>
   fst (GenerateDockerOptions (go_template Quote) 2376 provisioner0)
     = Inr \<lparr>DockerOptions.EngineOptions =
              ''[Unit]\<newline>'' @
              ''Description=Docker Application Container Engine\<newline>'' @
              ''Documentation=http://docs.docker.com\<newline>'' @
              ''After=network.target\<newline>'' @
              ''\<newline>'' @
              ''[Service]\<newline>'' @
              ''ExecStart=/usr/bin/docker -d -H tcp://0.0.0.0:2376 -H unix:///var/run/docker.sock --storage-driver overlay --tlsverify --tlscacert /etc/docker/ca.pem --tlscert /etc/docker/server.pem --tlskey /etc/docker/server-key.pem --label provider=virtualbox \<newline>'' @
              ''MountFlags=slave\<newline>'' @
              ''LimitNOFILE=1048576\<newline>'' @
              ''LimitNPROC=1048576\<newline>'' @
              ''LimitCORE=infinity\<newline>'' @
              ''Environment=\<newline>'' @
              ''\<newline>'' @
              ''[Install]\<newline>'' @
              ''WantedBy=multi-user.target\<newline>'',
            EngineOptionsPath = ''/etc/systemd/system/docker.service''\<rparr> \<and>
   count_list
     (Fields (DockerOptions.EngineOptions
                (projr (fst (GenerateDockerOptions (go_template Quote) 2376 provisioner0)))))
     ''--label'' = 1"
proof -
  have rendered: "fst (GenerateDockerOptions (go_template Quote) 2376 provisioner0)
     = Inr \<lparr>DockerOptions.EngineOptions =
              ''[Unit]\<newline>'' @
              ''Description=Docker Application Container Engine\<newline>'' @
              ''Documentation=http://docs.docker.com\<newline>'' @
              ''After=network.target\<newline>'' @
              ''\<newline>'' @
              ''[Service]\<newline>'' @
              ''ExecStart=/usr/bin/docker -d -H tcp://0.0.0.0:2376 -H unix:///var/run/docker.sock --storage-driver overlay --tlsverify --tlscacert /etc/docker/ca.pem --tlscert /etc/docker/server.pem --tlskey /etc/docker/server-key.pem --label provider=virtualbox \<newline>'' @
              ''MountFlags=slave\<newline>'' @
              ''LimitNOFILE=1048576\<newline>'' @
              ''LimitNPROC=1048576\<newline>'' @
              ''LimitCORE=infinity\<newline>'' @
              ''Environment=\<newline>'' @
              ''\<newline>'' @
              ''[Install]\<newline>'' @
              ''WantedBy=multi-user.target\<newline>'',
            EngineOptionsPath = ''/etc/systemd/system/docker.service''\<rparr>"
    unfolding GenerateDockerOptions_go_template
    by (simp add: provisioner0_def unitFile_def unitHead_def unitTail_def flags_def Itoa_def
          digit_def)
  have count: "count_list
     (Fields (DockerOptions.EngineOptions
                (projr (fst (GenerateDockerOptions (go_template Quote) 2376 provisioner0)))))
     ''--label'' = 1"
    unfolding rendered by (simp add: isSpace_def)
  have "length (Labels (AtomicHostProvisioner.EngineOptions provisioner0)) = 0"
    by (simp add: provisioner0_def)
  with rendered count show ?thesis by blast
qed

text \<open>
  Claim C7, amended. For a provisioner whose \<open>EngineOptions\<close> hold \<open>N\<close> labels, \<open>M\<close> insecure
  registries, \<open>K\<close> registry mirrors and \<open>J\<close> arbitrary flags, the rendered text is: the
  head of the unit (which depends on the port, the storage driver and the certificate
  paths only), then \<open>N + 1\<close> flags \<open>--label\<close> (the \<open>N\<close> stored labels in their order, then
  \<open>provider=<driver-name>\<close>), \<open>M\<close> flags \<open>--insecure-registry\<close>, \<open>K\<close> flags
  \<open>--registry-mirror\<close> and \<open>J\<close> flags \<open>--<flag>\<close>, each list in the order of its input list,
  then the tail of the unit (which depends on \<open>Env\<close> only).
\<close>

theorem GenerateDockerOptions_flags:
  "fst (GenerateDockerOptions (go_template Q) dockerPort p)
     = Inr \<lparr>DockerOptions.EngineOptions =
              unitHead dockerPort (StorageDriver (AtomicHostProvisioner.EngineOptions p))
                (AtomicHostProvisioner.AuthOptions p) @
              flags ''--label '' (Labels (AtomicHostProvisioner.EngineOptions p)
                                   @ [''provider='' @ DriverName (Driver p)]) @
              flags ''--insecure-registry '' (InsecureRegistry (AtomicHostProvisioner.EngineOptions p)) @
              flags ''--registry-mirror '' (RegistryMirror (AtomicHostProvisioner.EngineOptions p)) @
              flags ''--'' (ArbitraryFlags (AtomicHostProvisioner.EngineOptions p)) @
              unitTail Q (engine_Options.Env (AtomicHostProvisioner.EngineOptions p)),
            EngineOptionsPath = DaemonOptionsFile p\<rparr>"
  by (simp add: GenerateDockerOptions_go_template unitFile_def)

text \<open>
  Claim C9. \<open>GenerateDockerOptions\<close> returns an error only when parsing the template
  returns that error. When the template parses and its execution fails, having written
  \<open>engineCfg\<close> to the buffer, the result is no error and the options with the text
  \<open>engineCfg\<close>.
\<close>

theorem GenerateDockerOptions_error_only_from_Parse:
  "(fst (GenerateDockerOptions lib dockerPort p) = Inl err \<longrightarrow>
      Parse lib engineConfigTmpl = Inl err) \<and>
   (Parse lib engineConfigTmpl = Inr t \<and>
    Execute lib t
      \<lparr>DockerPort = dockerPort,
       EngineConfigContext.AuthOptions = AtomicHostProvisioner.AuthOptions p,
       EngineConfigContext.EngineOptions =
         (AtomicHostProvisioner.EngineOptions p)
           \<lparr>Labels := Labels (AtomicHostProvisioner.EngineOptions p)
                        @ [''provider='' @ DriverName (Driver p)]\<rparr>\<rparr>
      = (engineCfg, Some execErr) \<longrightarrow>
      fst (GenerateDockerOptions lib dockerPort p)
        = Inr \<lparr>DockerOptions.EngineOptions = engineCfg,
                 EngineOptionsPath = DaemonOptionsFile p\<rparr>)"
  by (auto simp: GenerateDockerOptions_def Let_def split: sum.splits)

theorem GenerateDockerOptions_error_only_from_Parse_witness:
  "fst (GenerateDockerOptions no_parse_template 2376 provisioner0)
     = Inl (GoError ''template: engineConfig:1: unexpected EOF'') \<and>
   Parse no_parse_template engineConfigTmpl
     = Inl (GoError ''template: engineConfig:1: unexpected EOF'') \<and>
   Parse short_data_template engineConfigTmpl = Inr (projr (Parse_template engineConfigTmpl)) \<and>
   Execute short_data_template (projr (Parse_template engineConfigTmpl))
      \<lparr>DockerPort = 2376,
       EngineConfigContext.AuthOptions = AtomicHostProvisioner.AuthOptions provisioner0,
       EngineConfigContext.EngineOptions =
         (AtomicHostProvisioner.EngineOptions provisioner0)
           \<lparr>Labels := Labels (AtomicHostProvisioner.EngineOptions provisioner0)
                        @ [''provider='' @ DriverName (Driver provisioner0)]\<rparr>\<rparr>
     = (''[Unit]\<newline>'' @
        ''Description=Docker Application Container Engine\<newline>'' @
        ''Documentation=http://docs.docker.com\<newline>'' @
        ''After=network.target\<newline>'' @
        ''\<newline>'' @
        ''[Service]\<newline>'' @
        ''ExecStart=/usr/bin/docker -d -H tcp://0.0.0.0:2376 -H unix:///var/run/docker.sock --storage-driver '',
        Some (GoError ''template: engineConfig: can't evaluate field EngineOptions'')) \<and>
   fst (GenerateDockerOptions short_data_template 2376 provisioner0)
     = Inr \<lparr>DockerOptions.EngineOptions =
              ''[Unit]\<newline>'' @
              ''Description=Docker Application Container Engine\<newline>'' @
              ''Documentation=http://docs.docker.com\<newline>'' @
              ''After=network.target\<newline>'' @
              ''\<newline>'' @
              ''[Service]\<newline>'' @
              ''ExecStart=/usr/bin/docker -d -H tcp://0.0.0.0:2376 -H unix:///var/run/docker.sock --storage-driver '',
            EngineOptionsPath = DaemonOptionsFile provisioner0\<rparr>"
proof -
  have failed: "fst (GenerateDockerOptions no_parse_template 2376 provisioner0)
     = Inl (GoError ''template: engineConfig:1: unexpected EOF'')"
    by (simp add: GenerateDockerOptions_def no_parse_template_def Let_def)
  have parsed: "Parse short_data_template engineConfigTmpl
     = Inr (projr (Parse_template engineConfigTmpl))"
    by (simp add: short_data_template_def Parse_engineConfigTmpl)
  have executed: "Execute short_data_template (projr (Parse_template engineConfigTmpl))
      \<lparr>DockerPort = 2376,
       EngineConfigContext.AuthOptions = AtomicHostProvisioner.AuthOptions provisioner0,
       EngineConfigContext.EngineOptions =
         (AtomicHostProvisioner.EngineOptions provisioner0)
           \<lparr>Labels := Labels (AtomicHostProvisioner.EngineOptions provisioner0)
                        @ [''provider='' @ DriverName (Driver provisioner0)]\<rparr>\<rparr>
     = (''[Unit]\<newline>'' @
        ''Description=Docker Application Container Engine\<newline>'' @
        ''Documentation=http://docs.docker.com\<newline>'' @
        ''After=network.target\<newline>'' @
        ''\<newline>'' @
        ''[Service]\<newline>'' @
        ''ExecStart=/usr/bin/docker -d -H tcp://0.0.0.0:2376 -H unix:///var/run/docker.sock --storage-driver '',
        Some (GoError ''template: engineConfig: can't evaluate field EngineOptions''))"
    by (simp add: short_data_template_def Parse_engineConfigTmpl Itoa_def digit_def)
  note thm1 = GenerateDockerOptions_error_only_from_Parse
    [of no_parse_template 2376 provisioner0 "GoError ''template: engineConfig:1: unexpected EOF''"]
  note thm2 = GenerateDockerOptions_error_only_from_Parse
    [of short_data_template 2376 provisioner0 _ "projr (Parse_template engineConfigTmpl)"]
  from thm1 failed have "Parse no_parse_template engineConfigTmpl
     = Inl (GoError ''template: engineConfig:1: unexpected EOF'')"
    by blast
  moreover from thm2 parsed executed
  have "fst (GenerateDockerOptions short_data_template 2376 provisioner0)
     = Inr \<lparr>DockerOptions.EngineOptions =
              ''[Unit]\<newline>'' @
              ''Description=Docker Application Container Engine\<newline>'' @
              ''Documentation=http://docs.docker.com\<newline>'' @
              ''After=network.target\<newline>'' @
              ''\<newline>'' @
              ''[Service]\<newline>'' @
              ''ExecStart=/usr/bin/docker -d -H tcp://0.0.0.0:2376 -H unix:///var/run/docker.sock --storage-driver '',
            EngineOptionsPath = DaemonOptionsFile provisioner0\<rparr>"
    by blast
  ultimately show ?thesis using failed parsed executed by blast
qed

text \<open>
  Claim C10. Every call appends \<open>provider=<driver-name>\<close> to the stored labels, whatever
  the template library does, so a call never leaves the provisioner as it was. After \<open>n\<close>
  calls the stored labels are the original ones followed by \<open>n\<close> provider entries, and
  the text rendered by the next call, the \<open>(n + 1)\<close>-th, has the flags of the original
  labels followed by \<open>n + 1\<close> flags \<open>--label provider=<driver-name>\<close>.
\<close>

theorem GenerateDockerOptions_appends_label:
  "Labels (AtomicHostProvisioner.EngineOptions (GenerateDockerOptions_calls lib dockerPort n p))
     = Labels (AtomicHostProvisioner.EngineOptions p)
         @ replicate n (''provider='' @ DriverName (Driver p)) \<and>
   count_list (Labels (AtomicHostProvisioner.EngineOptions
                 (GenerateDockerOptions_calls lib dockerPort n p)))
       (''provider='' @ DriverName (Driver p))
     = count_list (Labels (AtomicHostProvisioner.EngineOptions p))
         (''provider='' @ DriverName (Driver p)) + n \<and>
   snd (GenerateDockerOptions lib dockerPort p) \<noteq> p \<and>
   fst (GenerateDockerOptions (go_template Q) dockerPort
          (GenerateDockerOptions_calls (go_template Q) dockerPort n p))
     = Inr \<lparr>DockerOptions.EngineOptions =
              unitHead dockerPort (StorageDriver (AtomicHostProvisioner.EngineOptions p))
                (AtomicHostProvisioner.AuthOptions p) @
              flags ''--label '' (Labels (AtomicHostProvisioner.EngineOptions p)) @
              flags ''--label '' (replicate (Suc n) (''provider='' @ DriverName (Driver p))) @
              flags ''--insecure-registry '' (InsecureRegistry (AtomicHostProvisioner.EngineOptions p)) @
              flags ''--registry-mirror '' (RegistryMirror (AtomicHostProvisioner.EngineOptions p)) @
              flags ''--'' (ArbitraryFlags (AtomicHostProvisioner.EngineOptions p)) @
              unitTail Q (engine_Options.Env (AtomicHostProvisioner.EngineOptions p)),
            EngineOptionsPath = DaemonOptionsFile p\<rparr>"
proof -
  have neq: "snd (GenerateDockerOptions lib dockerPort p) \<noteq> p"
  proof
    assume "snd (GenerateDockerOptions lib dockerPort p) = p"
    then have "length (Labels (AtomicHostProvisioner.EngineOptions
                 (snd (GenerateDockerOptions lib dockerPort p))))
               = length (Labels (AtomicHostProvisioner.EngineOptions p))"
      by simp
    then show False by (simp add: GenerateDockerOptions_provisioner)
  qed
  have flags_append: "flags opt (xs @ ys) = flags opt xs @ flags opt ys" for opt xs ys
    by (simp add: flags_def)
  have count_replicate: "count_list (replicate k x) x = k" for k and x :: string
    by (induction k) simp_all
  have labels: "Labels (AtomicHostProvisioner.EngineOptions
                  (GenerateDockerOptions_calls lib dockerPort n p))
     = Labels (AtomicHostProvisioner.EngineOptions p)
         @ replicate n (''provider='' @ DriverName (Driver p))"
    by (simp add: GenerateDockerOptions_calls_provisioner)
  have rendered: "fst (GenerateDockerOptions (go_template Q) dockerPort
          (GenerateDockerOptions_calls (go_template Q) dockerPort n p))
     = Inr \<lparr>DockerOptions.EngineOptions =
              unitHead dockerPort (StorageDriver (AtomicHostProvisioner.EngineOptions p))
                (AtomicHostProvisioner.AuthOptions p) @
              flags ''--label '' (Labels (AtomicHostProvisioner.EngineOptions p)) @
              flags ''--label '' (replicate (Suc n) (''provider='' @ DriverName (Driver p))) @
              flags ''--insecure-registry '' (InsecureRegistry (AtomicHostProvisioner.EngineOptions p)) @
              flags ''--registry-mirror '' (RegistryMirror (AtomicHostProvisioner.EngineOptions p)) @
              flags ''--'' (ArbitraryFlags (AtomicHostProvisioner.EngineOptions p)) @
              unitTail Q (engine_Options.Env (AtomicHostProvisioner.EngineOptions p)),
            EngineOptionsPath = DaemonOptionsFile p\<rparr>"
    unfolding GenerateDockerOptions_go_template GenerateDockerOptions_calls_provisioner
    by (simp add: unitFile_def replicate_append_same flags_append)
  from labels neq rendered show ?thesis
    by (simp only: count_list_append count_replicate simp_thms)
qed

subsection \<open>upgrade\<close>





text \<open>
  Claim C3. When the upgrade command succeeds and its output does not contain
  \<open>No upgrade available.\<close>, \<open>upgrade\<close> sends exactly one \<open>sudo reboot\<close> to the remote host,
  after the upgrade command, and returns nil whatever the reboot command returns: the
  remote host is left in the state the reboot command produces, and the reboot's output
  and error are dropped.
\<close>

theorem upgrade_reboots_once:
  assumes "sshCommander c ''sudo atomic host upgrade'' (remote s) = ((out, None), w)"
      and "\<not> Contains out ''No upgrade available.''"
  shows "fst (upgrade c s) = None \<and>
         issued (snd (upgrade c s))
           = issued s @ [Ssh ''sudo atomic host upgrade'', Ssh ''sudo reboot''] \<and>
         count_list (drop (length (issued s)) (issued (snd (upgrade c s)))) (Ssh ''sudo reboot'') = 1 \<and>
         upgrade c s
           = (None, s\<lparr>remote := snd (sshCommander c ''sudo reboot'' w),
                        issued := issued s @ [Ssh ''sudo atomic host upgrade'', Ssh ''sudo reboot'']\<rparr>)"
  using assms by (simp add: upgrade_def SSHCommand_def split: prod.splits)

theorem upgrade_reboots_once_witness:
  "\<not> Contains ''Upgrade prepared for next boot'' ''No upgrade available.'' \<and>
   fst (upgrade scripted (host0 [(''Upgrade prepared for next boot'', None),
                                  ([], Some (GoError ''wait: remote command exited without exit status'')),
                                  (''later'', None)])) = None \<and>
   issued (snd (upgrade scripted (host0 [(''Upgrade prepared for next boot'', None),
                                  ([], Some (GoError ''wait: remote command exited without exit status'')),
                                  (''later'', None)])))
     = [Ssh ''sudo atomic host upgrade'', Ssh ''sudo reboot''] \<and>
   upgrade scripted (host0 [(''Upgrade prepared for next boot'', None),
                            ([], Some (GoError ''wait: remote command exited without exit status'')),
                            (''later'', None)])
     = (None, \<lparr>provisioner = provisioner0, remote = [(''later'', None)],
               issued = [Ssh ''sudo atomic host upgrade'', Ssh ''sudo reboot'']\<rparr>)"
  using upgrade_reboots_once [of scripted
          "host0 [(''Upgrade prepared for next boot'', None),
                  ([], Some (GoError ''wait: remote command exited without exit status'')),
                  (''later'', None)]"
          "''Upgrade prepared for next boot''"
          "[([], Some (GoError ''wait: remote command exited without exit status'')),
            (''later'', None)]"]
  by (simp add: scripted_def host0_def)

subsection \<open>Service\<close>

text \<open>
  Claim C4. For every service name, \<open>Service\<close> with Start or Restart sends
  \<open>sudo systemctl daemon-reload\<close> to the remote host first and then, the reload having
  returned no error, the action command \<open>sudo systemctl <action> <name>\<close> to the host as
  the reload left it; with Stop it sends the action command alone, to the host as it
  was. In both cases the result of \<open>Service\<close> is the error of the action command, and the
  host is left as the action command leaves it.
\<close>

theorem Service_commands:
  "(action = Start \<or> action = Restart \<longrightarrow>
      issued (snd (Service c name action s))
        = issued s @ Ssh ''sudo systemctl daemon-reload''
            # (if snd (fst (sshCommander c ''sudo systemctl daemon-reload'' (remote s))) = None
               then [Ssh (''sudo systemctl '' @ actionString c action @ '' '' @ name)]
               else [])) \<and>
   (action = Stop \<longrightarrow>
      issued (snd (Service c name action s))
        = issued s @ [Ssh (''sudo systemctl '' @ actionString c action @ '' '' @ name)]) \<and>
   ((action = Start \<or> action = Restart) \<and>
    sshCommander c ''sudo systemctl daemon-reload'' (remote s) = ((out, None), w) \<longrightarrow>
      Service c name action s
        = (snd (fst (sshCommander c (''sudo systemctl '' @ actionString c action @ '' '' @ name) w)),
           s\<lparr>remote := snd (sshCommander c (''sudo systemctl '' @ actionString c action @ '' '' @ name) w),
             issued := issued s @ [Ssh ''sudo systemctl daemon-reload'',
                                   Ssh (''sudo systemctl '' @ actionString c action @ '' '' @ name)]\<rparr>)) \<and>
   (action = Stop \<longrightarrow>
      Service c name action s
        = (snd (fst (sshCommander c (''sudo systemctl '' @ actionString c action @ '' '' @ name) (remote s))),
           s\<lparr>remote := snd (sshCommander c (''sudo systemctl '' @ actionString c action @ '' '' @ name)
                                (remote s)),
             issued := issued s @ [Ssh (''sudo systemctl '' @ actionString c action @ '' '' @ name)]\<rparr>))"
  by (cases action)
     (auto simp: Service_def SSHCommand_def Let_def split: prod.splits option.splits)

theorem Service_commands_witness:
  "issued (snd (Service scripted ''docker'' Start (host0 [])))
     = [Ssh ''sudo systemctl daemon-reload'', Ssh ''sudo systemctl start docker''] \<and>
   issued (snd (Service scripted ''docker'' Restart (host0 [])))
     = [Ssh ''sudo systemctl daemon-reload'', Ssh ''sudo systemctl restart docker''] \<and>
   issued (snd (Service scripted ''docker'' Stop (host0 [])))
     = [Ssh ''sudo systemctl stop docker''] \<and>
   Service scripted ''docker'' Start
       (host0 [([], None), ([], Some (GoError ''exit status 5'')), (''later'', None)])
     = (Some (GoError ''exit status 5''),
        \<lparr>provisioner = provisioner0, remote = [(''later'', None)],
         issued = [Ssh ''sudo systemctl daemon-reload'', Ssh ''sudo systemctl start docker'']\<rparr>) \<and>
   Service scripted ''docker'' Restart (host0 [([], None), ([], None), (''later'', None)])
     = (None,
        \<lparr>provisioner = provisioner0, remote = [(''later'', None)],
         issued = [Ssh ''sudo systemctl daemon-reload'', Ssh ''sudo systemctl restart docker'']\<rparr>) \<and>
   Service scripted ''docker'' Stop (host0 [([], Some (GoError ''exit status 5'')), (''later'', None)])
     = (Some (GoError ''exit status 5''),
        \<lparr>provisioner = provisioner0, remote = [(''later'', None)],
         issued = [Ssh ''sudo systemctl stop docker'']\<rparr>)"
  using Service_commands [of Start scripted "''docker''" "host0 []"]
        Service_commands [of Restart scripted "''docker''" "host0 []"]
        Service_commands [of Stop scripted "''docker''" "host0 []"]
        Service_commands [of Start scripted "''docker''"
          "host0 [([], None), ([], Some (GoError ''exit status 5'')), (''later'', None)]"
          "[]" "[([], Some (GoError ''exit status 5'')), (''later'', None)]"]
        Service_commands [of Restart scripted "''docker''"
          "host0 [([], None), ([], None), (''later'', None)]"
          "[]" "[([], None), (''later'', None)]"]
        Service_commands [of Stop scripted "''docker''"
          "host0 [([], Some (GoError ''exit status 5'')), (''later'', None)]"]
  by (simp add: scripted_def host0_def)

text \<open>
  Claim C5. For Start and Restart, when the daemon-reload command fails, \<open>Service\<close>
  returns that error at once: the reload is the only command issued, and the action
  command is never attempted.
\<close>

theorem Service_reload_failure:
  assumes "action = Start \<or> action = Restart"
      and "sshCommander c ''sudo systemctl daemon-reload'' (remote s) = ((out, Some err), w)"
  shows "Service c name action s
           = (Some err, s\<lparr>remote := w, issued := issued s @ [Ssh ''sudo systemctl daemon-reload'']\<rparr>)"
  using assms by (auto simp: Service_def SSHCommand_def)

theorem Service_reload_failure_witness:
  "Service scripted ''docker'' Start (host0 [([], Some (GoError ''exit status 1''))])
     = (Some (GoError ''exit status 1''),
        \<lparr>provisioner = provisioner0, remote = [], issued = [Ssh ''sudo systemctl daemon-reload'']\<rparr>) \<and>
   Service scripted ''docker'' Restart (host0 [([], Some (GoError ''exit status 1''))])
     = (Some (GoError ''exit status 1''),
        \<lparr>provisioner = provisioner0, remote = [], issued = [Ssh ''sudo systemctl daemon-reload'']\<rparr>)"
  using Service_reload_failure [of Start scripted "host0 [([], Some (GoError ''exit status 1''))]"
          "[]" "GoError ''exit status 1''" "[]" "''docker''"]
        Service_reload_failure [of Restart scripted "host0 [([], Some (GoError ''exit status 1''))]"
          "[]" "GoError ''exit status 1''" "[]" "''docker''"]
  by (simp add: scripted_def host0_def)

subsection \<open>Provision\<close>

lemma call_keeps_SwarmOptions:
  assumes "\<And>p w. SwarmOptions (fst (snd (f (p, w)))) = SwarmOptions p"
  shows "SwarmOptions (provisioner (snd (call ev f s))) = SwarmOptions (provisioner s)"
  using assms [of "provisioner s" "remote s"]
  by (auto simp: call_def split: prod.splits)

text \<open>
  Claim C6. An empty \<open>StorageDriver\<close> is defaulted to \<open>overlay\<close>: \<open>Provision\<close> then behaves
  as if \<open>overlay\<close> had been given, and goes on to the hostname step, which receives the
  provisioner with the three option structs stored and \<open>StorageDriver\<close> set to \<open>overlay\<close>;
  when that step fails its error is returned, and when it succeeds the options-directory
  step is run on what it left. Any other value than \<open>overlay\<close> makes \<open>Provision\<close> return an
  error with no collaborator called, no remote command issued and the remote host
  untouched: only the three option structs have been stored.
\<close>

theorem Provision_storage_driver:
  "(StorageDriver eo = [] \<longrightarrow>
      Provision c so ao eo s = Provision c so ao (eo\<lparr>StorageDriver := ''overlay''\<rparr>) s \<and>
      (\<exists>evs. issued (snd (Provision c so ao eo s))
               = issued s @ CallSetHostname (GetMachineName (Driver (provisioner s))) # evs)) \<and>
   (StorageDriver eo \<noteq> [] \<and> StorageDriver eo \<noteq> ''overlay'' \<longrightarrow>
      fst (Provision c so ao eo s)
        = Some (GoError (''Unsupported storage driver: '' @ StorageDriver eo)) \<and>
      issued (snd (Provision c so ao eo s)) = issued s \<and>
      remote (snd (Provision c so ao eo s)) = remote s) \<and>
   (StorageDriver eo = [] \<and>
    hostnameSetter c (GetMachineName (Driver (provisioner s)))
      ((provisioner s)\<lparr>SwarmOptions := so,
                        AtomicHostProvisioner.AuthOptions := ao,
                        AtomicHostProvisioner.EngineOptions := eo\<lparr>StorageDriver := ''overlay''\<rparr>\<rparr>,
       remote s)
      = (Some err, p2, w2) \<longrightarrow>
      Provision c so ao eo s
        = (Some err,
           \<lparr>provisioner = p2, remote = w2,
            issued = issued s @ [CallSetHostname (GetMachineName (Driver (provisioner s)))]\<rparr>)) \<and>
   (StorageDriver eo = [] \<and>
    hostnameSetter c (GetMachineName (Driver (provisioner s)))
      ((provisioner s)\<lparr>SwarmOptions := so,
                        AtomicHostProvisioner.AuthOptions := ao,
                        AtomicHostProvisioner.EngineOptions := eo\<lparr>StorageDriver := ''overlay''\<rparr>\<rparr>,
       remote s)
      = (None, p2, w2) \<and>
    optionsDirMaker c (p2, w2) = (Some err, p3, w3) \<longrightarrow>
      Provision c so ao eo s
        = (Some err,
           \<lparr>provisioner = p3, remote = w3,
            issued = issued s @ [CallSetHostname (GetMachineName (Driver (provisioner s))),
                                 CallMakeDockerOptionsDir]\<rparr>)) \<and>
   (StorageDriver eo \<noteq> [] \<and> StorageDriver eo \<noteq> ''overlay'' \<longrightarrow>
      Provision c so ao eo s
        = (Some (GoError (''Unsupported storage driver: '' @ StorageDriver eo)),
           s\<lparr>provisioner :=
                (provisioner s)\<lparr>SwarmOptions := so,
                                 AtomicHostProvisioner.AuthOptions := ao,
                                 AtomicHostProvisioner.EngineOptions := eo\<rparr>\<rparr>))"
  by (auto simp: Provision_def call_def Let_def split: prod.splits option.splits)

theorem Provision_storage_driver_witness:
  "Provision scripted (SwarmOptions provisioner0) (AtomicHostProvisioner.AuthOptions provisioner0)
       ((AtomicHostProvisioner.EngineOptions provisioner0)\<lparr>StorageDriver := []\<rparr>) (host0 [])
     = Provision scripted (SwarmOptions provisioner0) (AtomicHostProvisioner.AuthOptions provisioner0)
         ((AtomicHostProvisioner.EngineOptions provisioner0)\<lparr>StorageDriver := ''overlay''\<rparr>) (host0 []) \<and>
   hd (issued (snd (Provision scripted (SwarmOptions provisioner0)
       (AtomicHostProvisioner.AuthOptions provisioner0)
       ((AtomicHostProvisioner.EngineOptions provisioner0)\<lparr>StorageDriver := []\<rparr>) (host0 []))))
     = CallSetHostname ''dev'' \<and>
   fst (Provision scripted (SwarmOptions provisioner0) (AtomicHostProvisioner.AuthOptions provisioner0)
       ((AtomicHostProvisioner.EngineOptions provisioner0)\<lparr>StorageDriver := ''btrfs''\<rparr>) (host0 []))
     = Some (GoError ''Unsupported storage driver: btrfs'') \<and>
   issued (snd (Provision scripted (SwarmOptions provisioner0)
       (AtomicHostProvisioner.AuthOptions provisioner0)
       ((AtomicHostProvisioner.EngineOptions provisioner0)\<lparr>StorageDriver := ''btrfs''\<rparr>) (host0 [])))
     = [] \<and>
   Provision hostname_fails (SwarmOptions provisioner0) (AtomicHostProvisioner.AuthOptions provisioner0)
       ((AtomicHostProvisioner.EngineOptions provisioner0)\<lparr>StorageDriver := []\<rparr>) (host0 [])
     = (Some (GoError ''hostname: exit status 1''),
        \<lparr>provisioner = provisioner0, remote = [], issued = [CallSetHostname ''dev'']\<rparr>) \<and>
   StorageDriver (AtomicHostProvisioner.EngineOptions provisioner0) = ''overlay'' \<and>
   Provision options_dir_fails (SwarmOptions provisioner0) (AtomicHostProvisioner.AuthOptions provisioner0)
       ((AtomicHostProvisioner.EngineOptions provisioner0)\<lparr>StorageDriver := []\<rparr>) (host0 [])
     = (Some (GoError ''mkdir: exit status 1''),
        \<lparr>provisioner = provisioner0, remote = [],
         issued = [CallSetHostname ''dev'', CallMakeDockerOptionsDir]\<rparr>) \<and>
   Provision scripted (SwarmOptions provisioner0) (AtomicHostProvisioner.AuthOptions provisioner0)
       ((AtomicHostProvisioner.EngineOptions provisioner0)\<lparr>StorageDriver := ''btrfs''\<rparr>) (host0 [])
     = (Some (GoError ''Unsupported storage driver: btrfs''),
        \<lparr>provisioner =
           provisioner0\<lparr>AtomicHostProvisioner.EngineOptions :=
             (AtomicHostProvisioner.EngineOptions provisioner0)\<lparr>StorageDriver := ''btrfs''\<rparr>\<rparr>,
         remote = [], issued = []\<rparr>)"
  using Provision_storage_driver
          [where eo = "(AtomicHostProvisioner.EngineOptions provisioner0)\<lparr>StorageDriver := []\<rparr>"
             and c = scripted and so = "SwarmOptions provisioner0"
             and ao = "AtomicHostProvisioner.AuthOptions provisioner0" and s = "host0 []"]
        Provision_storage_driver
          [where eo = "(AtomicHostProvisioner.EngineOptions provisioner0)\<lparr>StorageDriver := ''btrfs''\<rparr>"
             and c = scripted and so = "SwarmOptions provisioner0"
             and ao = "AtomicHostProvisioner.AuthOptions provisioner0" and s = "host0 []"]
        Provision_storage_driver
          [where eo = "(AtomicHostProvisioner.EngineOptions provisioner0)\<lparr>StorageDriver := []\<rparr>"
             and c = hostname_fails and so = "SwarmOptions provisioner0"
             and ao = "AtomicHostProvisioner.AuthOptions provisioner0" and s = "host0 []"
             and err = "GoError ''hostname: exit status 1''" and ?p2.0 = provisioner0
             and ?w2.0 = "[]"]
        Provision_storage_driver
          [where eo = "(AtomicHostProvisioner.EngineOptions provisioner0)\<lparr>StorageDriver := []\<rparr>"
             and c = options_dir_fails and so = "SwarmOptions provisioner0"
             and ao = "AtomicHostProvisioner.AuthOptions provisioner0" and s = "host0 []"
             and err = "GoError ''mkdir: exit status 1''" and ?p2.0 = provisioner0
             and ?w2.0 = "[]" and ?p3.0 = provisioner0 and ?w3.0 = "[]"]
  by (auto simp: host0_def provisioner0_def scripted_def hostname_fails_def options_dir_fails_def)

text \<open>
  Claim C8. Whenever \<open>Provision\<close> reaches the swarm configuration step (the storage driver
  is accepted and the four steps before it succeed), the swarm configurer is called with
  the caller's swarm options with \<open>Env\<close> overwritten by the \<open>Env\<close> of the engine options
  argument, with the \<open>AuthOptions\<close> of the provisioner and with the provisioner and remote
  host that the certificate step left; its result is the result of \<open>Provision\<close>. The copy is
  one-way: the provisioner is handed to the first step with the caller's swarm options
  as given, and when no collaborator changes the stored \<open>SwarmOptions\<close>, they are still the
  caller's after \<open>Provision\<close>.
\<close>

theorem Provision_swarm_env:
  "(issued (snd (Provision c so ao eo s)) = issued s @ evs \<and>
    CallConfigureSwarm so' ao' \<in> set evs \<longrightarrow>
      so' = so\<lparr>swarm_Options.Env := engine_Options.Env eo\<rparr> \<and>
      swarm_Options.Env so' = engine_Options.Env eo) \<and>
   ((StorageDriver eo = [] \<or> StorageDriver eo = ''overlay'') \<and>
    hostnameSetter c (GetMachineName (Driver (provisioner s)))
      ((provisioner s)\<lparr>SwarmOptions := so,
                        AtomicHostProvisioner.AuthOptions := ao,
                        AtomicHostProvisioner.EngineOptions := eo\<lparr>StorageDriver := ''overlay''\<rparr>\<rparr>,
       remote s)
      = (None, p2, w2) \<and>
    optionsDirMaker c (p2, w2) = (None, p3, w3) \<and>
    remoteAuthSetter c (p3, w3) = (remoteAuth, p4, w4) \<and>
    authConfigurer c (p4\<lparr>AtomicHostProvisioner.AuthOptions := remoteAuth\<rparr>, w4) = (None, p6, w6) \<longrightarrow>
      Provision c so ao eo s
        = (fst (swarmConfigurer c (so\<lparr>swarm_Options.Env := engine_Options.Env eo\<rparr>)
                  (AtomicHostProvisioner.AuthOptions p6) (p6, w6)),
           \<lparr>provisioner =
              fst (snd (swarmConfigurer c (so\<lparr>swarm_Options.Env := engine_Options.Env eo\<rparr>)
                          (AtomicHostProvisioner.AuthOptions p6) (p6, w6))),
            remote =
              snd (snd (swarmConfigurer c (so\<lparr>swarm_Options.Env := engine_Options.Env eo\<rparr>)
                          (AtomicHostProvisioner.AuthOptions p6) (p6, w6))),
            issued = issued s @
              [CallSetHostname (GetMachineName (Driver (provisioner s))),
               CallMakeDockerOptionsDir, CallSetRemoteAuthOptions, CallConfigureAuth,
               CallConfigureSwarm (so\<lparr>swarm_Options.Env := engine_Options.Env eo\<rparr>)
                 (AtomicHostProvisioner.AuthOptions p6)]\<rparr>)) \<and>
   ((\<forall>h p w. SwarmOptions (fst (snd (hostnameSetter c h (p, w)))) = SwarmOptions p) \<and>
    (\<forall>p w. SwarmOptions (fst (snd (optionsDirMaker c (p, w)))) = SwarmOptions p) \<and>
    (\<forall>p w. SwarmOptions (fst (snd (remoteAuthSetter c (p, w)))) = SwarmOptions p) \<and>
    (\<forall>p w. SwarmOptions (fst (snd (authConfigurer c (p, w)))) = SwarmOptions p) \<and>
    (\<forall>so1 ao1 p w. SwarmOptions (fst (snd (swarmConfigurer c so1 ao1 (p, w)))) = SwarmOptions p) \<longrightarrow>
      SwarmOptions (provisioner (snd (Provision c so ao eo s))) = so)"
proof (intro conjI impI)
  assume "issued (snd (Provision c so ao eo s)) = issued s @ evs \<and>
    CallConfigureSwarm so' ao' \<in> set evs"
  then have handed: "so' = so\<lparr>swarm_Options.Env := engine_Options.Env eo\<rparr>"
    by (auto simp: Provision_def call_def Let_def split: prod.splits option.splits if_splits)
  then show "so' = so\<lparr>swarm_Options.Env := engine_Options.Env eo\<rparr>"
    and "swarm_Options.Env so' = engine_Options.Env eo"
    by simp_all
next
  assume steps: "(StorageDriver eo = [] \<or> StorageDriver eo = ''overlay'') \<and>
    hostnameSetter c (GetMachineName (Driver (provisioner s)))
      ((provisioner s)\<lparr>SwarmOptions := so,
                        AtomicHostProvisioner.AuthOptions := ao,
                        AtomicHostProvisioner.EngineOptions := eo\<lparr>StorageDriver := ''overlay''\<rparr>\<rparr>,
       remote s)
      = (None, p2, w2) \<and>
    optionsDirMaker c (p2, w2) = (None, p3, w3) \<and>
    remoteAuthSetter c (p3, w3) = (remoteAuth, p4, w4) \<and>
    authConfigurer c (p4\<lparr>AtomicHostProvisioner.AuthOptions := remoteAuth\<rparr>, w4) = (None, p6, w6)"
  have overlay: "eo\<lparr>StorageDriver := ''overlay''\<rparr> = eo" if "StorageDriver eo = ''overlay''"
    using that by (cases eo) simp
  from steps show "Provision c so ao eo s
        = (fst (swarmConfigurer c (so\<lparr>swarm_Options.Env := engine_Options.Env eo\<rparr>)
                  (AtomicHostProvisioner.AuthOptions p6) (p6, w6)),
           \<lparr>provisioner =
              fst (snd (swarmConfigurer c (so\<lparr>swarm_Options.Env := engine_Options.Env eo\<rparr>)
                          (AtomicHostProvisioner.AuthOptions p6) (p6, w6))),
            remote =
              snd (snd (swarmConfigurer c (so\<lparr>swarm_Options.Env := engine_Options.Env eo\<rparr>)
                          (AtomicHostProvisioner.AuthOptions p6) (p6, w6))),
            issued = issued s @
              [CallSetHostname (GetMachineName (Driver (provisioner s))),
               CallMakeDockerOptionsDir, CallSetRemoteAuthOptions, CallConfigureAuth,
               CallConfigureSwarm (so\<lparr>swarm_Options.Env := engine_Options.Env eo\<rparr>)
                 (AtomicHostProvisioner.AuthOptions p6)]\<rparr>)"
    by (auto simp: Provision_def call_def Let_def overlay split: prod.splits option.splits)
next
  assume "(\<forall>h p w. SwarmOptions (fst (snd (hostnameSetter c h (p, w)))) = SwarmOptions p) \<and>
    (\<forall>p w. SwarmOptions (fst (snd (optionsDirMaker c (p, w)))) = SwarmOptions p) \<and>
    (\<forall>p w. SwarmOptions (fst (snd (remoteAuthSetter c (p, w)))) = SwarmOptions p) \<and>
    (\<forall>p w. SwarmOptions (fst (snd (authConfigurer c (p, w)))) = SwarmOptions p) \<and>
    (\<forall>so1 ao1 p w. SwarmOptions (fst (snd (swarmConfigurer c so1 ao1 (p, w)))) = SwarmOptions p)"
  then show "SwarmOptions (provisioner (snd (Provision c so ao eo s))) = so"
    by (simp add: Provision_def Let_def split_beta call_keeps_SwarmOptions
          split: option.splits sum.splits)
qed

theorem Provision_swarm_env_witness:
  "issued (snd (Provision scripted \<lparr>swarm_Options.Env = [''SWARM_DEBUG=1'']\<rparr>
       (AtomicHostProvisioner.AuthOptions provisioner0)
       ((AtomicHostProvisioner.EngineOptions provisioner0)\<lparr>engine_Options.Env := [''HTTP_PROXY=http://proxy:3128'']\<rparr>)
       (host0 [])))
     = issued (host0 []) @
       [CallSetHostname ''dev'', CallMakeDockerOptionsDir, CallSetRemoteAuthOptions, CallConfigureAuth,
        CallConfigureSwarm \<lparr>swarm_Options.Env = [''HTTP_PROXY=http://proxy:3128'']\<rparr>
          (AtomicHostProvisioner.AuthOptions provisioner0)] \<and>
   swarm_Options.Env \<lparr>swarm_Options.Env = [''HTTP_PROXY=http://proxy:3128'']\<rparr>
     = engine_Options.Env ((AtomicHostProvisioner.EngineOptions provisioner0)\<lparr>engine_Options.Env := [''HTTP_PROXY=http://proxy:3128'']\<rparr>) \<and>
   Provision scripted \<lparr>swarm_Options.Env = [''SWARM_DEBUG=1'']\<rparr>
       (AtomicHostProvisioner.AuthOptions provisioner0)
       ((AtomicHostProvisioner.EngineOptions provisioner0)\<lparr>engine_Options.Env := [''HTTP_PROXY=http://proxy:3128'']\<rparr>)
       (host0 [])
     = (None,
        \<lparr>provisioner =
           provisioner0\<lparr>SwarmOptions := \<lparr>swarm_Options.Env = [''SWARM_DEBUG=1'']\<rparr>,
             AtomicHostProvisioner.EngineOptions :=
               (AtomicHostProvisioner.EngineOptions provisioner0)\<lparr>engine_Options.Env := [''HTTP_PROXY=http://proxy:3128'']\<rparr>\<rparr>,
         remote = [],
         issued =
           [CallSetHostname ''dev'', CallMakeDockerOptionsDir, CallSetRemoteAuthOptions, CallConfigureAuth,
            CallConfigureSwarm \<lparr>swarm_Options.Env = [''HTTP_PROXY=http://proxy:3128'']\<rparr>
              (AtomicHostProvisioner.AuthOptions provisioner0)]\<rparr>) \<and>
   SwarmOptions (provisioner (snd (Provision scripted \<lparr>swarm_Options.Env = [''SWARM_DEBUG=1'']\<rparr>
       (AtomicHostProvisioner.AuthOptions provisioner0)
       ((AtomicHostProvisioner.EngineOptions provisioner0)\<lparr>engine_Options.Env := [''HTTP_PROXY=http://proxy:3128'']\<rparr>)
       (host0 []))))
     = \<lparr>swarm_Options.Env = [''SWARM_DEBUG=1'']\<rparr>"
proof -
  let ?so = "\<lparr>swarm_Options.Env = [''SWARM_DEBUG=1'']\<rparr>"
  let ?ao = "AtomicHostProvisioner.AuthOptions provisioner0"
  let ?eo = "(AtomicHostProvisioner.EngineOptions provisioner0)\<lparr>engine_Options.Env := [''HTTP_PROXY=http://proxy:3128'']\<rparr>"
  let ?p = "provisioner0\<lparr>SwarmOptions := ?so, AtomicHostProvisioner.EngineOptions := ?eo\<rparr>"
  let ?evs = "[CallSetHostname ''dev'', CallMakeDockerOptionsDir, CallSetRemoteAuthOptions,
               CallConfigureAuth,
               CallConfigureSwarm \<lparr>swarm_Options.Env = [''HTTP_PROXY=http://proxy:3128'']\<rparr> ?ao]"
  note inst = Provision_swarm_env
    [where c = scripted and so = ?so and ao = ?ao and eo = ?eo and s = "host0 []"
       and evs = ?evs and so' = "\<lparr>swarm_Options.Env = [''HTTP_PROXY=http://proxy:3128'']\<rparr>"
       and ao' = ?ao and ?p2.0 = ?p and ?w2.0 = "[]" and ?p3.0 = ?p and ?w3.0 = "[]"
       and remoteAuth = ?ao and ?p4.0 = ?p and ?w4.0 = "[]" and ?p6.0 = ?p and ?w6.0 = "[]"]
  have run: "issued (snd (Provision scripted ?so ?ao ?eo (host0 []))) = issued (host0 []) @ ?evs"
    by (simp add: Provision_def call_def Let_def scripted_def host0_def provisioner0_def)
  have keeps: "(\<forall>h p w. SwarmOptions (fst (snd (hostnameSetter scripted h (p, w)))) = SwarmOptions p) \<and>
    (\<forall>p w. SwarmOptions (fst (snd (optionsDirMaker scripted (p, w)))) = SwarmOptions p) \<and>
    (\<forall>p w. SwarmOptions (fst (snd (remoteAuthSetter scripted (p, w)))) = SwarmOptions p) \<and>
    (\<forall>p w. SwarmOptions (fst (snd (authConfigurer scripted (p, w)))) = SwarmOptions p) \<and>
    (\<forall>so1 ao1 p w. SwarmOptions (fst (snd (swarmConfigurer scripted so1 ao1 (p, w)))) = SwarmOptions p)"
    by (simp add: scripted_def)
  have steps: "(StorageDriver ?eo = [] \<or> StorageDriver ?eo = ''overlay'') \<and>
    hostnameSetter scripted (GetMachineName (Driver (provisioner (host0 []))))
      ((provisioner (host0 []))\<lparr>SwarmOptions := ?so,
                        AtomicHostProvisioner.AuthOptions := ?ao,
                        AtomicHostProvisioner.EngineOptions := ?eo\<lparr>StorageDriver := ''overlay''\<rparr>\<rparr>,
       remote (host0 []))
      = (None, ?p, []) \<and>
    optionsDirMaker scripted (?p, []) = (None, ?p, []) \<and>
    remoteAuthSetter scripted (?p, []) = (?ao, ?p, []) \<and>
    authConfigurer scripted (?p\<lparr>AtomicHostProvisioner.AuthOptions := ?ao\<rparr>, []) = (None, ?p, [])"
    by (simp add: scripted_def host0_def provisioner0_def)
  from inst run have handed: "swarm_Options.Env \<lparr>swarm_Options.Env = [''HTTP_PROXY=http://proxy:3128'']\<rparr>
     = engine_Options.Env ?eo"
    by simp
  from inst steps have result: "Provision scripted ?so ?ao ?eo (host0 [])
     = (None, \<lparr>provisioner = ?p, remote = [], issued = ?evs\<rparr>)"
    by (simp add: scripted_def host0_def provisioner0_def)
  from inst keeps have stored: "SwarmOptions (provisioner (snd (Provision scripted ?so ?ao ?eo (host0 [])))) = ?so"
    by blast
  from run handed result stored show ?thesis by blast
qed

end
